theory Spec2Isabelle
  imports Complex_Main "HOL-Library.Multiset"
begin

section \<open>The canteen ordering subsystem of app.py\<close>

text \<open>
  The development embeds the canteen part of \<^verbatim>\<open>src/app.py\<close>: the two tables
  \<^verbatim>\<open>CanteenItem\<close> and \<^verbatim>\<open>CanteenOrder\<close>, and the request handlers
  \<^verbatim>\<open>add_menu_item\<close>, \<^verbatim>\<open>place_order\<close> and \<^verbatim>\<open>order_history\<close>.

  Conventions of the embedding:
  \<^item> A table is the list of its rows in insertion order. A primary-key lookup
    (\<^verbatim>\<open>query.get\<close>) finds the first row with that id; a new row gets the next integer
    after the largest id in the table (1 in an empty table), as SQLite assigns it.
  \<^item> Python integers are \<open>int\<close>; the \<^verbatim>\<open>Float\<close> price is a \<open>real\<close>; a
    \<^verbatim>\<open>DateTime\<close> is an \<open>int\<close> (a point on the clock). The clock reading
    \<^verbatim>\<open>datetime.utcnow()\<close> of a request is the parameter \<open>now\<close> of its handler.
  \<^item> A handler takes the world (both tables and the trace of commits and socket emits so
    far) and returns its HTTP response, a JSON body with a status code, together with the
    new world.
  \<^item> \<^verbatim>\<open>@jwt_required()\<close> runs before a handler; the handler is modelled for an
    authenticated caller, whose identity (\<^verbatim>\<open>get_jwt_identity()\<close>) is the parameter
    \<open>student_id\<close>.
  \<^item> A request body is a record of optional fields: \<open>None\<close> is a key that is absent from
    the JSON object, \<open>Some v\<close> a key that is present with a value of the field's type.
  \<^item> An integer that is bound to an SQL statement, as the key of a lookup or as the value
    of an \<^verbatim>\<open>Integer\<close> column, has to fit the 64-bit signed \<^verbatim>\<open>INTEGER\<close> of SQLite
    (\<open>sqlite_int\<close> below). For an integer outside that range the database driver raises
    \<^verbatim>\<open>OverflowError\<close>, which no handler catches: the request is answered with status 500
    and nothing is stored or emitted. The handlers are embedded for integers inside the
    range, and that error path is not part of the embedding; a property that depends on
    it carries the range as a hypothesis.
\<close>

subsection \<open>Data model\<close>

type_synonym datetime = int

text \<open>Class \<^verbatim>\<open>CanteenItem\<close> (fields prefixed \<open>i_\<close>).\<close>

record CanteenItem =
  i_id :: int
  i_name :: string
  i_price :: real
  i_available :: bool
  i_quantity :: int
  i_updated_at :: datetime

text \<open>Class \<^verbatim>\<open>CanteenOrder\<close> (fields prefixed \<open>o_\<close>).\<close>

record CanteenOrder =
  o_id :: int
  o_student_id :: int
  o_item_id :: int
  o_quantity :: int
  o_status :: string
  o_created_at :: datetime

text \<open>JSON values, as the handlers build them for \<^verbatim>\<open>jsonify\<close> and \<^verbatim>\<open>socketio.emit\<close>.
  A Python dict literal is an association list in the order it is written.\<close>

datatype json =
    JNull
  | JBool bool
  | JInt int
  | JFloat real
  | JStr string
  | JObj "(string \<times> json) list"
  | JList "json list"

text \<open>What a request does to the outside, in the order it happens:
  \<^verbatim>\<open>db.session.commit()\<close> and \<^verbatim>\<open>socketio.emit(event, payload)\<close>.\<close>

datatype effect =
    DbCommit
  | SocketEmit string "(string \<times> json) list"

record world =
  canteen_items :: "CanteenItem list"
  canteen_orders :: "CanteenOrder list"
  trace :: "effect list"

type_synonym response = "json \<times> nat"

subsection \<open>Database and socket primitives\<close>

text \<open>\<^verbatim>\<open>CanteenItem.query.get(item_id)\<close>, for a key within the integer range of SQLite.\<close>

definition query_get :: "CanteenItem list \<Rightarrow> int \<Rightarrow> CanteenItem option" where
  "query_get tbl k = find (\<lambda>i. i_id i = k) tbl"

text \<open>The integers SQLite stores and accepts as statement parameters.\<close>

definition sqlite_int :: "int \<Rightarrow> bool" where
  "sqlite_int n = (- (2 ^ 63) \<le> n \<and> n < 2 ^ 63)"

text \<open>The id of the next inserted row.\<close>

definition next_id :: "int list \<Rightarrow> int" where
  "next_id ids = (case ids of [] \<Rightarrow> 1 | x # xs \<Rightarrow> fold max xs x + 1)"

text \<open>Flushing a loaded item whose attributes were assigned: an \<^verbatim>\<open>UPDATE\<close> of the row is
  issued only when a column value differs from the loaded one, and then
  \<^verbatim>\<open>onupdate=datetime.utcnow\<close> refreshes \<^verbatim>\<open>updated_at\<close>.\<close>

definition flush_item :: "datetime \<Rightarrow> CanteenItem \<Rightarrow> CanteenItem \<Rightarrow> CanteenItem list \<Rightarrow> CanteenItem list" where
  "flush_item now old new tbl =
     (if i_quantity new = i_quantity old \<and> i_available new = i_available old then tbl
      else map (\<lambda>i. if i_id i = i_id old then new\<lparr>i_updated_at := now\<rparr> else i) tbl)"

definition commit :: "world \<Rightarrow> world" where
  "commit w = w\<lparr>trace := trace w @ [DbCommit]\<rparr>"

definition emit :: "string \<Rightarrow> (string \<times> json) list \<Rightarrow> world \<Rightarrow> world" where
  "emit event payload w = w\<lparr>trace := trace w @ [SocketEmit event payload]\<rparr>"

text \<open>The socket events of a trace, in order.\<close>

fun emitted :: "effect list \<Rightarrow> (string \<times> (string \<times> json) list) list" where
  "emitted [] = []"
| "emitted (DbCommit # es) = emitted es"
| "emitted (SocketEmit ev p # es) = (ev, p) # emitted es"

subsection \<open>POST /canteen/order\<close>

record order_request =
  r_item_id :: "int option"
  r_quantity :: "int option"

text \<open>\<^verbatim>\<open>int(data.get("quantity", 1))\<close>\<close>

definition requested_quantity :: "order_request \<Rightarrow> int" where
  "requested_quantity data = (case r_quantity data of None \<Rightarrow> 1 | Some q \<Rightarrow> q)"

definition msg :: "string \<Rightarrow> json" where
  "msg s = JObj [(''msg'', JStr s)]"

definition place_order :: "datetime \<Rightarrow> int \<Rightarrow> order_request \<Rightarrow> world \<Rightarrow> response \<times> world" where
  "place_order now student_id data w =
     (let qty = requested_quantity data in
      case r_item_id data of
        None \<Rightarrow> ((msg ''item_id required'', 400), w)
      | Some item_id \<Rightarrow>
          if item_id = 0 then ((msg ''item_id required'', 400), w)
          else
            (case query_get (canteen_items w) item_id of
               None \<Rightarrow> ((msg ''item not available or insufficient quantity'', 400), w)
             | Some item \<Rightarrow>
                 if \<not> i_available item \<or> i_quantity item < qty
                 then ((msg ''item not available or insufficient quantity'', 400), w)
                 else
                   let item1 = item\<lparr>i_quantity := i_quantity item - qty\<rparr>;
                       item2 = (if i_quantity item1 \<le> 0 then item1\<lparr>i_available := False\<rparr> else item1);
                       order = \<lparr>o_id = next_id (map o_id (canteen_orders w)),
                                o_student_id = student_id,
                                o_item_id = i_id item2,
                                o_quantity = qty,
                                o_status = ''placed'',
                                o_created_at = now\<rparr>;
                       w1 = commit (w\<lparr>canteen_items := flush_item now item item2 (canteen_items w),
                                      canteen_orders := canteen_orders w @ [order]\<rparr>);
                       w2 = emit ''canteen_update''
                              [(''action'', JStr ''order''),
                               (''item_id'', JInt (i_id item2)),
                               (''new_quantity'', JInt (i_quantity item2))] w1
                   in ((JObj [(''msg'', JStr ''order placed''), (''order_id'', JInt (o_id order))], 201), w2)))"

subsection \<open>POST /canteen/menu\<close>

record menu_request =
  m_name :: "string option"
  m_price :: "real option"
  m_quantity :: "int option"
  m_available :: "bool option"

text \<open>With the fields typed as above, \<^verbatim>\<open>int(quantity)\<close> and \<^verbatim>\<open>bool(available)\<close> are
  the identity. \<^verbatim>\<open>float(price)\<close> is taken as the number itself: its rounding to a double,
  and the \<^verbatim>\<open>OverflowError\<close> for an integer beyond the doubles, are not modelled. The
  quantity is within the integer range of SQLite, as in the conventions above.\<close>

definition add_menu_item :: "datetime \<Rightarrow> menu_request \<Rightarrow> world \<Rightarrow> response \<times> world" where
  "add_menu_item now data w =
     (let price = (case m_price data of None \<Rightarrow> 0 | Some p \<Rightarrow> p);
          quantity = (case m_quantity data of None \<Rightarrow> 0 | Some q \<Rightarrow> q);
          available = (case m_available data of None \<Rightarrow> True | Some b \<Rightarrow> b)
      in case m_name data of
           None \<Rightarrow> ((msg ''name required'', 400), w)
         | Some name \<Rightarrow>
             if name = [] then ((msg ''name required'', 400), w)
             else
               let item = \<lparr>i_id = next_id (map i_id (canteen_items w)),
                           i_name = name,
                           i_price = price,
                           i_available = available,
                           i_quantity = quantity,
                           i_updated_at = now\<rparr>;
                   w1 = commit (w\<lparr>canteen_items := canteen_items w @ [item]\<rparr>);
                   w2 = emit ''canteen_update''
                          [(''action'', JStr ''add''),
                           (''item'', JObj [(''id'', JInt (i_id item)),
                                            (''name'', JStr (i_name item)),
                                            (''price'', JFloat (i_price item)),
                                            (''quantity'', JInt (i_quantity item)),
                                            (''available'', JBool (i_available item))])] w1
               in ((JObj [(''msg'', JStr ''menu item added''), (''id'', JInt (i_id item))], 201), w2))"

subsection \<open>GET /canteen/orders\<close>

text \<open>The query of the handler: the caller's orders, \<^verbatim>\<open>created_at\<close> descending. SQL leaves
  the order of rows with equal timestamps open; the model keeps them in insertion order.\<close>

definition history_rows :: "int \<Rightarrow> CanteenOrder list \<Rightarrow> CanteenOrder list" where
  "history_rows student_id tbl =
     sort_key (\<lambda>r. - o_created_at r) (filter (\<lambda>r. o_student_id r = student_id) tbl)"

text \<open>The loop over the orders, appending one summary each. \<^verbatim>\<open>isoformat\<close> is the
  library's rendering of a \<^verbatim>\<open>datetime\<close>, a parameter here.\<close>

fun summaries :: "(datetime \<Rightarrow> string) \<Rightarrow> CanteenItem list \<Rightarrow> json list \<Rightarrow> CanteenOrder list \<Rightarrow> json list" where
  "summaries isoformat items out [] = out"
| "summaries isoformat items out (r # orders) =
     summaries isoformat items
       (out @ [JObj [(''order_id'', JInt (o_id r)),
                     (''item'', (case query_get items (o_item_id r) of
                                   Some item \<Rightarrow> JObj [(''id'', JInt (i_id item)), (''name'', JStr (i_name item))]
                                 | None \<Rightarrow> JNull)),
                     (''quantity'', JInt (o_quantity r)),
                     (''status'', JStr (o_status r)),
                     (''created_at'', JStr (isoformat (o_created_at r)))]])
       orders"

definition order_history :: "(datetime \<Rightarrow> string) \<Rightarrow> int \<Rightarrow> world \<Rightarrow> response" where
  "order_history isoformat student_id w =
     (let orders = history_rows student_id (canteen_orders w);
          out = summaries isoformat (canteen_items w) [] orders
      in (JList out, 200))"

subsection \<open>Concrete worlds for the scenarios\<close>

text \<open>One item \<^verbatim>\<open>{id: 1, quantity: 5, available: true}\<close>, an empty ledger, nothing emitted.\<close>

definition demo_world :: world where
  "demo_world =
     \<lparr>canteen_items = [\<lparr>i_id = 1, i_name = ''samosa'', i_price = 10, i_available = True,
                          i_quantity = 5, i_updated_at = 0\<rparr>],
      canteen_orders = [],
      trace = []\<rparr>"

text \<open>The same catalog with a ledger of three orders by two students.\<close>

definition demo_ledger :: world where
  "demo_ledger =
     demo_world\<lparr>canteen_orders :=
       [\<lparr>o_id = 1, o_student_id = 7, o_item_id = 1, o_quantity = 2, o_status = ''placed'', o_created_at = 10\<rparr>,
        \<lparr>o_id = 2, o_student_id = 8, o_item_id = 1, o_quantity = 1, o_status = ''placed'', o_created_at = 20\<rparr>,
        \<lparr>o_id = 3, o_student_id = 7, o_item_id = 4, o_quantity = 1, o_status = ''ready'', o_created_at = 30\<rparr>]\<rparr>"

section \<open>Properties\<close>

subsection \<open>Lookups and fresh ids\<close>

lemma query_get_id: "query_get tbl k = Some item \<Longrightarrow> i_id item = k"
  by (induction tbl) (auto simp: query_get_def split: if_splits)

lemma next_id_greater: "x \<in> set ids \<Longrightarrow> x < next_id ids"
proof (cases ids)
  case Nil
  assume "x \<in> set ids"
  with Nil show ?thesis by simp
next
  case (Cons y ys)
  assume mem: "x \<in> set ids"
  have "fold max ys y = Max (set (y # ys))"
    by (simp only: Max.set_eq_fold)
  moreover from mem Cons have "x \<le> Max (set (y # ys))"
    by (intro Max_ge) auto
  ultimately show ?thesis
    using Cons by (simp add: next_id_def)
qed

lemma query_get_map_update:
  assumes "query_get tbl k = Some item" and "i_id new = k"
  shows "query_get (map (\<lambda>i. if i_id i = k then new else i) tbl) k = Some new"
  using assms
  by (induction tbl) (auto simp: query_get_def split: if_splits)

lemma query_get_flush_item:
  assumes "query_get tbl k = Some old" and "i_id new = k"
  shows "\<exists>r. query_get (flush_item now old new tbl) k = Some r
           \<and> i_quantity r = i_quantity new \<and> i_available r = i_available new"
proof (cases "i_quantity new = i_quantity old \<and> i_available new = i_available old")
  case True
  with assms(1) show ?thesis
    by (simp add: flush_item_def)
next
  case False
  have "i_id old = k"
    using assms(1) by (rule query_get_id)
  moreover have "query_get (map (\<lambda>i. if i_id i = k then new\<lparr>i_updated_at := now\<rparr> else i) tbl) k
                   = Some (new\<lparr>i_updated_at := now\<rparr>)"
    using assms by (intro query_get_map_update) simp_all
  moreover have "flush_item now old new tbl
                   = map (\<lambda>i. if i_id i = i_id old then new\<lparr>i_updated_at := now\<rparr> else i) tbl"
    unfolding flush_item_def by (rule if_not_P [OF False])
  ultimately show ?thesis
    by simp
qed

subsection \<open>The two outcomes of an order\<close>

lemma place_order_success:
  assumes "r_item_id data = Some k" and "k \<noteq> 0"
    and "query_get (canteen_items w) k = Some item"
    and "i_available item" and "requested_quantity data \<le> i_quantity item"
  shows "place_order now sid data w =
    (let qty = requested_quantity data;
         item2 = (if i_quantity item \<le> qty
                  then item\<lparr>i_quantity := i_quantity item - qty, i_available := False\<rparr>
                  else item\<lparr>i_quantity := i_quantity item - qty\<rparr>);
         oid = next_id (map o_id (canteen_orders w))
     in ((JObj [(''msg'', JStr ''order placed''), (''order_id'', JInt oid)], 201),
         w\<lparr>canteen_items := flush_item now item item2 (canteen_items w),
           canteen_orders := canteen_orders w @
            [\<lparr>o_id = oid, o_student_id = sid, o_item_id = k, o_quantity = qty,
              o_status = ''placed'', o_created_at = now\<rparr>],
           trace := trace w @ [DbCommit,
            SocketEmit ''canteen_update''
              [(''action'', JStr ''order''), (''item_id'', JInt k),
               (''new_quantity'', JInt (i_quantity item - qty))]]\<rparr>))"
  using assms query_get_id [OF assms(3)]
  by (simp add: place_order_def Let_def commit_def emit_def)

lemma place_order_201D:
  assumes "snd (fst (place_order now sid data w)) = 201"
  obtains k item where "r_item_id data = Some k" and "k \<noteq> 0"
    and "query_get (canteen_items w) k = Some item"
    and "i_available item" and "requested_quantity data \<le> i_quantity item"
  using assms
  by (auto simp: place_order_def Let_def split: option.splits if_splits)

lemma place_order_rejected:
  assumes "snd (fst (place_order now sid data w)) \<noteq> 201"
  shows "snd (fst (place_order now sid data w)) = 400" and "snd (place_order now sid data w) = w"
  using assms
  by (auto simp: place_order_def Let_def split: option.splits if_splits)

section \<open>The claims\<close>

subsection \<open>Failed orders\<close>

text \<open>
  Claim C2. A request to place an order that fails changes nothing. Whenever the response is
  not 201, and in particular whenever the referenced item does not exist, is not available,
  or has less than the requested quantity, the response is a 400 and the world after the
  request is the world before it: every catalog item keeps its quantity and its
  availability flag, the ledger has no new order, and nothing is emitted.
\<close>

theorem place_order_failure_noop:
  assumes "snd (fst (place_order now sid data w)) \<noteq> 201
           \<or> (\<exists>k. r_item_id data = Some k
                \<and> (query_get (canteen_items w) k = None
                    \<or> (\<exists>item. query_get (canteen_items w) k = Some item
                          \<and> (\<not> i_available item \<or> i_quantity item < requested_quantity data))))"
  shows "snd (fst (place_order now sid data w)) = 400 \<and> snd (place_order now sid data w) = w"
proof -
  have "snd (fst (place_order now sid data w)) \<noteq> 201"
  proof
    assume "snd (fst (place_order now sid data w)) = 201"
    then obtain k item where "r_item_id data = Some k"
      and "query_get (canteen_items w) k = Some item"
      and "i_available item" and "requested_quantity data \<le> i_quantity item"
      and "snd (fst (place_order now sid data w)) = 201"
      by (auto elim: place_order_201D)
    with assms show False by auto
  qed
  then show ?thesis
    by (simp add: place_order_rejected)
qed

text \<open>An order of 9 against the 5 in stock of \<open>demo_world\<close>.\<close>

theorem place_order_failure_noop_witness:
  "query_get (canteen_items demo_world) 1
     = Some \<lparr>i_id = 1, i_name = ''samosa'', i_price = 10, i_available = True,
             i_quantity = 5, i_updated_at = 0\<rparr>
   \<and> (5::int) < requested_quantity \<lparr>r_item_id = Some 1, r_quantity = Some 9\<rparr>
   \<and> snd (fst (place_order 100 7 \<lparr>r_item_id = Some 1, r_quantity = Some 9\<rparr> demo_world)) = 400
   \<and> snd (place_order 100 7 \<lparr>r_item_id = Some 1, r_quantity = Some 9\<rparr> demo_world) = demo_world"
proof -
  have item: "query_get (canteen_items demo_world) 1
     = Some \<lparr>i_id = 1, i_name = ''samosa'', i_price = 10, i_available = True,
             i_quantity = 5, i_updated_at = 0\<rparr>"
    by (simp add: demo_world_def query_get_def)
  have qty: "(5::int) < requested_quantity \<lparr>r_item_id = Some 1, r_quantity = Some 9\<rparr>"
    by (simp add: requested_quantity_def)
  show ?thesis
    using item qty
      place_order_failure_noop [of 100 7 "\<lparr>r_item_id = Some 1, r_quantity = Some 9\<rparr>" demo_world]
    by simp
qed

subsection \<open>Successful orders\<close>

text \<open>
  Claim C3. After every successful order the ordered item satisfies
  \<open>available = (quantity > 0)\<close>: its flag is false when the new quantity is zero and true
  when the new quantity is positive, whatever the flag and quantity of the other rows are.
\<close>

theorem place_order_keeps_availability_invariant:
  assumes "place_order now sid data w = ((body, 201), w')" and "r_item_id data = Some k"
  shows "\<exists>item'. query_get (canteen_items w') k = Some item'
           \<and> i_available item' = (0 < i_quantity item')"
proof -
  from assms(1) have "snd (fst (place_order now sid data w)) = 201"
    by simp
  then obtain k' item where k': "r_item_id data = Some k'" and nz: "k' \<noteq> 0"
    and item: "query_get (canteen_items w) k' = Some item"
    and av: "i_available item" and le: "requested_quantity data \<le> i_quantity item"
    by (rule place_order_201D)
  from k' assms(2) have kk: "k' = k" by simp
  define item2 where "item2 =
    (if i_quantity item \<le> requested_quantity data
     then item\<lparr>i_quantity := i_quantity item - requested_quantity data, i_available := False\<rparr>
     else item\<lparr>i_quantity := i_quantity item - requested_quantity data\<rparr>)"
  have inv2: "i_available item2 = (0 < i_quantity item2)"
    using av le by (simp add: item2_def)
  have id2: "i_id item2 = k"
    using query_get_id [OF item] kk by (simp add: item2_def)
  have "canteen_items w' = flush_item now item item2 (canteen_items w)"
    using assms(1) place_order_success [OF k' nz item av le, of now sid]
    by (auto simp: Let_def item2_def)
  moreover obtain r where "query_get (flush_item now item item2 (canteen_items w)) k = Some r"
    and "i_quantity r = i_quantity item2" and "i_available r = i_available item2"
    using query_get_flush_item [OF item [unfolded kk] id2] by blast
  ultimately show ?thesis
    using inv2 by simp
qed

text \<open>Ordering all 5 in stock of \<open>demo_world\<close>: the item ends with quantity 0, not available.\<close>

theorem place_order_keeps_availability_invariant_witness:
  "place_order 100 7 \<lparr>r_item_id = Some 1, r_quantity = Some 5\<rparr> demo_world
     = ((JObj [(''msg'', JStr ''order placed''), (''order_id'', JInt 1)], 201),
        snd (place_order 100 7 \<lparr>r_item_id = Some 1, r_quantity = Some 5\<rparr> demo_world))
   \<and> (\<exists>item'. query_get (canteen_items
           (snd (place_order 100 7 \<lparr>r_item_id = Some 1, r_quantity = Some 5\<rparr> demo_world))) 1 = Some item'
         \<and> i_available item' = (0 < i_quantity item'))"
proof -
  have run: "place_order 100 7 \<lparr>r_item_id = Some 1, r_quantity = Some 5\<rparr> demo_world
     = ((JObj [(''msg'', JStr ''order placed''), (''order_id'', JInt 1)], 201),
        snd (place_order 100 7 \<lparr>r_item_id = Some 1, r_quantity = Some 5\<rparr> demo_world))"
    by (simp add: place_order_def demo_world_def query_get_def requested_quantity_def
        next_id_def Let_def)
  show ?thesis
    using run place_order_keeps_availability_invariant [OF run, of 1]
    by simp
qed

text \<open>
  Claim C4. A successful order appends exactly one order to the ledger, with the caller's
  id, the id of the item, the requested quantity, the status \<open>placed\<close> and the time of
  the request, and adds to the trace exactly one commit followed by exactly one
  \<open>canteen_update\<close> emit: the order is committed before the broadcast goes out.
\<close>

theorem place_order_one_entry_then_one_broadcast:
  assumes "place_order now sid data w = ((body, 201), w')"
  shows "\<exists>oid k payload.
           r_item_id data = Some k
         \<and> canteen_orders w' = canteen_orders w @
              [\<lparr>o_id = oid, o_student_id = sid, o_item_id = k,
                o_quantity = requested_quantity data, o_status = ''placed'', o_created_at = now\<rparr>]
         \<and> trace w' = trace w @ [DbCommit, SocketEmit ''canteen_update'' payload]"
proof -
  from assms have "snd (fst (place_order now sid data w)) = 201"
    by simp
  then obtain k item where k: "r_item_id data = Some k" and nz: "k \<noteq> 0"
    and item: "query_get (canteen_items w) k = Some item"
    and av: "i_available item" and le: "requested_quantity data \<le> i_quantity item"
    by (rule place_order_201D)
  from assms place_order_success [OF k nz item av le, of now sid]
  have "canteen_orders w' = canteen_orders w @
              [\<lparr>o_id = next_id (map o_id (canteen_orders w)), o_student_id = sid, o_item_id = k,
                o_quantity = requested_quantity data, o_status = ''placed'', o_created_at = now\<rparr>]"
    and "trace w' = trace w @ [DbCommit, SocketEmit ''canteen_update''
              [(''action'', JStr ''order''), (''item_id'', JInt k),
               (''new_quantity'', JInt (i_quantity item - requested_quantity data))]]"
    by (auto simp: Let_def)
  with k show ?thesis
    by blast
qed

text \<open>An order with no quantity given (so 1) in \<open>demo_world\<close>.\<close>

theorem place_order_one_entry_then_one_broadcast_witness:
  "place_order 100 7 \<lparr>r_item_id = Some 1, r_quantity = None\<rparr> demo_world
     = ((JObj [(''msg'', JStr ''order placed''), (''order_id'', JInt 1)], 201),
        snd (place_order 100 7 \<lparr>r_item_id = Some 1, r_quantity = None\<rparr> demo_world))
   \<and> (\<exists>oid k payload.
         canteen_orders (snd (place_order 100 7 \<lparr>r_item_id = Some 1, r_quantity = None\<rparr> demo_world))
           = [\<lparr>o_id = oid, o_student_id = 7, o_item_id = k,
                o_quantity = 1, o_status = ''placed'', o_created_at = 100\<rparr>]
       \<and> trace (snd (place_order 100 7 \<lparr>r_item_id = Some 1, r_quantity = None\<rparr> demo_world))
           = [DbCommit, SocketEmit ''canteen_update'' payload])"
proof -
  have run: "place_order 100 7 \<lparr>r_item_id = Some 1, r_quantity = None\<rparr> demo_world
     = ((JObj [(''msg'', JStr ''order placed''), (''order_id'', JInt 1)], 201),
        snd (place_order 100 7 \<lparr>r_item_id = Some 1, r_quantity = None\<rparr> demo_world))"
    by (simp add: place_order_def demo_world_def query_get_def requested_quantity_def
        next_id_def Let_def)
  have "canteen_orders demo_world = []" and "trace demo_world = []"
    and "requested_quantity \<lparr>r_item_id = Some 1, r_quantity = None\<rparr> = 1"
    by (simp_all add: demo_world_def requested_quantity_def)
  then show ?thesis
    using run place_order_one_entry_then_one_broadcast [OF run]
    by auto
qed

subsection \<open>The error response\<close>

text \<open>
  Claim C5, as the code has it. A request that names an item id (not 0, and within the
  integer range of SQLite, so that the lookup of line 210 does not raise) that is not in
  the catalog, and a request that names such an id of an item that is not available or has
  less than the requested quantity, get the same response: status 400 with the one message
  \<open>item not available or insufficient quantity\<close>. The response carries no error kind.
\<close>

theorem place_order_rejections_share_one_response:
  assumes "r_item_id data = Some k" and "k \<noteq> 0" and "sqlite_int k"
    and "query_get (canteen_items w) k = None
         \<or> (\<exists>item. query_get (canteen_items w) k = Some item
               \<and> (\<not> i_available item \<or> i_quantity item < requested_quantity data))"
  shows "fst (place_order now sid data w)
           = (JObj [(''msg'', JStr ''item not available or insufficient quantity'')], 400)"
  using assms
  by (auto simp: place_order_def msg_def Let_def)

text \<open>Item 2 is not in \<open>demo_world\<close>.\<close>

theorem place_order_rejections_share_one_response_witness:
  "sqlite_int 2
   \<and> query_get (canteen_items demo_world) 2 = None
   \<and> fst (place_order 100 7 \<lparr>r_item_id = Some 2, r_quantity = Some 3\<rparr> demo_world)
           = (JObj [(''msg'', JStr ''item not available or insufficient quantity'')], 400)"
proof -
  have none: "query_get (canteen_items demo_world) 2 = None"
    by (simp add: demo_world_def query_get_def)
  have range: "sqlite_int 2"
    by (simp add: sqlite_int_def)
  show ?thesis
    using none range
      place_order_rejections_share_one_response
        [of "\<lparr>r_item_id = Some 2, r_quantity = Some 3\<rparr>" 2 demo_world 100 7]
    by simp
qed

text \<open>
  Claim C5 as stated asks for two distinguishable error kinds. In \<open>demo_world\<close> an order
  of 9 for the missing item 2 and an order of 9 for item 1, of which 5 are in stock, return
  equal responses. Both ids are within the integer range of SQLite.
\<close>

theorem place_order_error_kinds_counterexample:
  "sqlite_int 2 \<and> sqlite_int 1
   \<and> query_get (canteen_items demo_world) 2 = None
   \<and> query_get (canteen_items demo_world) 1
        = Some \<lparr>i_id = 1, i_name = ''samosa'', i_price = 10, i_available = True,
                i_quantity = 5, i_updated_at = 0\<rparr>
   \<and> fst (place_order 100 7 \<lparr>r_item_id = Some 2, r_quantity = Some 9\<rparr> demo_world)
       = fst (place_order 100 7 \<lparr>r_item_id = Some 1, r_quantity = Some 9\<rparr> demo_world)"
  by (simp add: place_order_def demo_world_def query_get_def requested_quantity_def
      sqlite_int_def Let_def)

subsection \<open>The broadcast of an order\<close>

text \<open>
  Claim C6, as the code has it. The event emitted by a successful order is
  \<open>canteen_update\<close> with exactly three fields: the action \<open>order\<close>, the id of the item
  and the new quantity of the item as stored. It has no field for the availability flag.
\<close>

theorem place_order_broadcast_payload:
  assumes "place_order now sid data w = ((body, 201), w')" and "r_item_id data = Some k"
  shows "\<exists>item'. query_get (canteen_items w') k = Some item'
           \<and> trace w' = trace w @
                 [DbCommit,
                  SocketEmit ''canteen_update''
                    [(''action'', JStr ''order''),
                     (''item_id'', JInt k),
                     (''new_quantity'', JInt (i_quantity item'))]]"
proof -
  from assms(1) have "snd (fst (place_order now sid data w)) = 201"
    by simp
  then obtain k' item where k': "r_item_id data = Some k'" and nz: "k' \<noteq> 0"
    and item: "query_get (canteen_items w) k' = Some item"
    and av: "i_available item" and le: "requested_quantity data \<le> i_quantity item"
    by (rule place_order_201D)
  from k' assms(2) have kk: "k' = k" by simp
  define item2 where "item2 =
    (if i_quantity item \<le> requested_quantity data
     then item\<lparr>i_quantity := i_quantity item - requested_quantity data, i_available := False\<rparr>
     else item\<lparr>i_quantity := i_quantity item - requested_quantity data\<rparr>)"
  have q2: "i_quantity item2 = i_quantity item - requested_quantity data"
    by (simp add: item2_def)
  have id2: "i_id item2 = k"
    using query_get_id [OF item] kk by (simp add: item2_def)
  from assms(1) place_order_success [OF k' nz item av le, of now sid]
  have items: "canteen_items w' = flush_item now item item2 (canteen_items w)"
    and tr: "trace w' = trace w @ [DbCommit, SocketEmit ''canteen_update''
              [(''action'', JStr ''order''), (''item_id'', JInt k),
               (''new_quantity'', JInt (i_quantity item - requested_quantity data))]]"
    by (auto simp: Let_def item2_def kk)
  obtain r where "query_get (flush_item now item item2 (canteen_items w)) k = Some r"
    and "i_quantity r = i_quantity item2"
    using query_get_flush_item [OF item [unfolded kk] id2] by blast
  with items tr q2 show ?thesis
    by simp
qed

text \<open>An order of 3 in \<open>demo_world\<close>.\<close>

theorem place_order_broadcast_payload_witness:
  "place_order 100 7 \<lparr>r_item_id = Some 1, r_quantity = Some 3\<rparr> demo_world
     = ((JObj [(''msg'', JStr ''order placed''), (''order_id'', JInt 1)], 201),
        snd (place_order 100 7 \<lparr>r_item_id = Some 1, r_quantity = Some 3\<rparr> demo_world))
   \<and> (\<exists>item'. query_get (canteen_items
           (snd (place_order 100 7 \<lparr>r_item_id = Some 1, r_quantity = Some 3\<rparr> demo_world))) 1 = Some item'
         \<and> trace (snd (place_order 100 7 \<lparr>r_item_id = Some 1, r_quantity = Some 3\<rparr> demo_world))
             = [DbCommit,
                SocketEmit ''canteen_update''
                  [(''action'', JStr ''order''),
                   (''item_id'', JInt 1),
                   (''new_quantity'', JInt (i_quantity item'))]])"
proof -
  have run: "place_order 100 7 \<lparr>r_item_id = Some 1, r_quantity = Some 3\<rparr> demo_world
     = ((JObj [(''msg'', JStr ''order placed''), (''order_id'', JInt 1)], 201),
        snd (place_order 100 7 \<lparr>r_item_id = Some 1, r_quantity = Some 3\<rparr> demo_world))"
    by (simp add: place_order_def demo_world_def query_get_def requested_quantity_def
        next_id_def Let_def)
  have "trace demo_world = []"
    by (simp add: demo_world_def)
  then show ?thesis
    using run place_order_broadcast_payload [OF run, of 1]
    by auto
qed

text \<open>
  Claim C6 as stated asks for the new availability flag in the event. Ordering all 5 in
  stock of \<open>demo_world\<close> turns the flag of item 1 to false, and the one event emitted has
  the fields \<open>action\<close>, \<open>item_id\<close> and \<open>new_quantity\<close>, none of which holds the flag.
\<close>

theorem place_order_broadcast_counterexample:
  "query_get (canteen_items
       (snd (place_order 100 7 \<lparr>r_item_id = Some 1, r_quantity = Some 5\<rparr> demo_world))) 1
     = Some \<lparr>i_id = 1, i_name = ''samosa'', i_price = 10, i_available = False,
             i_quantity = 0, i_updated_at = 100\<rparr>
   \<and> emitted (trace (snd (place_order 100 7 \<lparr>r_item_id = Some 1, r_quantity = Some 5\<rparr> demo_world)))
     = [(''canteen_update'',
         [(''action'', JStr ''order''), (''item_id'', JInt 1), (''new_quantity'', JInt 0)])]
   \<and> JBool False \<notin> set (map snd
         [(''action'', JStr ''order''), (''item_id'', JInt 1), (''new_quantity'', JInt 0)])"
  by (simp add: place_order_def demo_world_def query_get_def requested_quantity_def
      next_id_def flush_item_def commit_def emit_def Let_def)

subsection \<open>The scenario of the specification\<close>

text \<open>
  Claim C7. Where the item has quantity 5 and is available, an order of 3 succeeds and
  returns an order id; afterwards the item has quantity 2 and is still available, and the
  ledger has gained one order, the only one with the returned id, of quantity 3 and status
  \<open>placed\<close>.
\<close>

theorem place_order_scenario_five_minus_three:
  assumes "query_get (canteen_items w) k = Some item" and "k \<noteq> 0"
    and "i_quantity item = 5" and "i_available item"
  shows "\<exists>oid item' w'.
           place_order now sid \<lparr>r_item_id = Some k, r_quantity = Some 3\<rparr> w
             = ((JObj [(''msg'', JStr ''order placed''), (''order_id'', JInt oid)], 201), w')
         \<and> query_get (canteen_items w') k = Some item'
         \<and> i_quantity item' = 2 \<and> i_available item'
         \<and> canteen_orders w' = canteen_orders w @
              [\<lparr>o_id = oid, o_student_id = sid, o_item_id = k, o_quantity = 3,
                o_status = ''placed'', o_created_at = now\<rparr>]
         \<and> filter (\<lambda>r. o_id r = oid) (canteen_orders w')
              = [\<lparr>o_id = oid, o_student_id = sid, o_item_id = k, o_quantity = 3,
                  o_status = ''placed'', o_created_at = now\<rparr>]"
proof -
  let ?data = "\<lparr>r_item_id = Some k, r_quantity = Some 3\<rparr>"
  let ?oid = "next_id (map o_id (canteen_orders w))"
  define item2 where "item2 = item\<lparr>i_quantity := 2\<rparr>"
  have qty: "requested_quantity ?data = 3"
    by (simp add: requested_quantity_def)
  have le: "requested_quantity ?data \<le> i_quantity item"
    using assms(3) qty by simp
  have k: "r_item_id ?data = Some k"
    by simp
  have run: "place_order now sid ?data w =
      ((JObj [(''msg'', JStr ''order placed''), (''order_id'', JInt ?oid)], 201),
       w\<lparr>canteen_items := flush_item now item item2 (canteen_items w),
         canteen_orders := canteen_orders w @
            [\<lparr>o_id = ?oid, o_student_id = sid, o_item_id = k, o_quantity = 3,
              o_status = ''placed'', o_created_at = now\<rparr>],
         trace := trace w @ [DbCommit,
            SocketEmit ''canteen_update''
              [(''action'', JStr ''order''), (''item_id'', JInt k), (''new_quantity'', JInt 2)]]\<rparr>)"
    using place_order_success [OF k assms(2) assms(1) assms(4) le, of now sid] assms(3) qty
    by (simp add: Let_def item2_def)
  have "i_id item2 = k"
    using query_get_id [OF assms(1)] by (simp add: item2_def)
  then obtain r where r: "query_get (flush_item now item item2 (canteen_items w)) k = Some r"
    and "i_quantity r = i_quantity item2" and "i_available r = i_available item2"
    using query_get_flush_item [OF assms(1)] by blast
  then have r2: "i_quantity r = 2" "i_available r"
    using assms(4) by (simp_all add: item2_def)
  have fresh: "filter (\<lambda>r. o_id r = ?oid) (canteen_orders w) = []"
  proof -
    have "o_id x \<noteq> ?oid" if "x \<in> set (canteen_orders w)" for x
      using next_id_greater [of "o_id x" "map o_id (canteen_orders w)"] that by auto
    then show ?thesis
      by (simp add: filter_empty_conv)
  qed
  show ?thesis
    using run r r2 fresh by simp
qed

text \<open>In \<open>demo_world\<close> the ledger starts empty, and ends with that one order.\<close>

theorem place_order_scenario_five_minus_three_witness:
  "query_get (canteen_items demo_world) 1
     = Some \<lparr>i_id = 1, i_name = ''samosa'', i_price = 10, i_available = True,
             i_quantity = 5, i_updated_at = 0\<rparr>
   \<and> (\<exists>oid item' w'.
           place_order 100 7 \<lparr>r_item_id = Some 1, r_quantity = Some 3\<rparr> demo_world
             = ((JObj [(''msg'', JStr ''order placed''), (''order_id'', JInt oid)], 201), w')
         \<and> query_get (canteen_items w') 1 = Some item'
         \<and> i_quantity item' = 2 \<and> i_available item'
         \<and> canteen_orders w' =
              [\<lparr>o_id = oid, o_student_id = 7, o_item_id = 1, o_quantity = 3,
                o_status = ''placed'', o_created_at = 100\<rparr>])"
proof -
  have item: "query_get (canteen_items demo_world) 1
     = Some \<lparr>i_id = 1, i_name = ''samosa'', i_price = 10, i_available = True,
             i_quantity = 5, i_updated_at = 0\<rparr>"
    by (simp add: demo_world_def query_get_def)
  have "canteen_orders demo_world = []"
    by (simp add: demo_world_def)
  then show ?thesis
    using item place_order_scenario_five_minus_three [OF item, of 100 7]
    by auto
qed

subsection \<open>The order history\<close>

text \<open>The loop of \<^verbatim>\<open>order_history\<close> appends one summary per order, in the order of the rows.\<close>

lemma summaries_append:
  "summaries isoformat items out orders =
     out @ map (\<lambda>r. JObj [(''order_id'', JInt (o_id r)),
                          (''item'', (case query_get items (o_item_id r) of
                                        Some item \<Rightarrow> JObj [(''id'', JInt (i_id item)), (''name'', JStr (i_name item))]
                                      | None \<Rightarrow> JNull)),
                          (''quantity'', JInt (o_quantity r)),
                          (''status'', JStr (o_status r)),
                          (''created_at'', JStr (isoformat (o_created_at r)))]) orders"
  by (induction orders arbitrary: out) simp_all

lemma history_rows_newest_first:
  "sorted_wrt (\<lambda>a b. o_created_at b \<le> o_created_at a) (history_rows sid tbl)"
proof -
  have "sorted (map (\<lambda>r. - o_created_at r) (history_rows sid tbl))"
    unfolding history_rows_def by (rule sorted_sort_key)
  then show ?thesis
    by (simp add: sorted_map)
qed

text \<open>
  Claim C8. The order history of an account is the list of summaries of the rows of
  \<open>history_rows\<close>, which are exactly the orders of that account (each as often as it is in
  the ledger) with creation times descending: newest first. A summary has the order id, the
  referenced item (its id and name; null when the catalog has no such item), the quantity,
  the status and the creation time.
\<close>

theorem order_history_newest_first:
  "order_history isoformat sid w =
     (JList (map (\<lambda>r. JObj [(''order_id'', JInt (o_id r)),
                          (''item'', (case query_get (canteen_items w) (o_item_id r) of
                                        Some item \<Rightarrow> JObj [(''id'', JInt (i_id item)), (''name'', JStr (i_name item))]
                                      | None \<Rightarrow> JNull)),
                          (''quantity'', JInt (o_quantity r)),
                          (''status'', JStr (o_status r)),
                          (''created_at'', JStr (isoformat (o_created_at r)))])
                 (history_rows sid (canteen_orders w))), 200)
   \<and> mset (history_rows sid (canteen_orders w))
       = filter_mset (\<lambda>r. o_student_id r = sid) (mset (canteen_orders w))
   \<and> sorted_wrt (\<lambda>a b. o_created_at b \<le> o_created_at a) (history_rows sid (canteen_orders w))"
proof (intro conjI)
  show "order_history isoformat sid w =
     (JList (map (\<lambda>r. JObj [(''order_id'', JInt (o_id r)),
                          (''item'', (case query_get (canteen_items w) (o_item_id r) of
                                        Some item \<Rightarrow> JObj [(''id'', JInt (i_id item)), (''name'', JStr (i_name item))]
                                      | None \<Rightarrow> JNull)),
                          (''quantity'', JInt (o_quantity r)),
                          (''status'', JStr (o_status r)),
                          (''created_at'', JStr (isoformat (o_created_at r)))])
                 (history_rows sid (canteen_orders w))), 200)"
    by (simp add: order_history_def Let_def summaries_append)
  show "mset (history_rows sid (canteen_orders w))
       = filter_mset (\<lambda>r. o_student_id r = sid) (mset (canteen_orders w))"
    by (simp add: history_rows_def)
  show "sorted_wrt (\<lambda>a b. o_created_at b \<le> o_created_at a) (history_rows sid (canteen_orders w))"
    by (rule history_rows_newest_first)
qed

text \<open>Student 7 in \<open>demo_ledger\<close>: order 3 (of an item that is not in the catalog) before
  order 1, and not order 2, which is student 8's.\<close>

theorem order_history_newest_first_witness:
  "order_history (\<lambda>t. ''T'') 7 demo_ledger =
     (JList [JObj [(''order_id'', JInt 3), (''item'', JNull), (''quantity'', JInt 1),
                   (''status'', JStr ''ready''), (''created_at'', JStr ''T'')],
             JObj [(''order_id'', JInt 1),
                   (''item'', JObj [(''id'', JInt 1), (''name'', JStr ''samosa'')]),
                   (''quantity'', JInt 2),
                   (''status'', JStr ''placed''), (''created_at'', JStr ''T'')]], 200)"
proof -
  have rows: "history_rows 7 (canteen_orders demo_ledger) =
      [\<lparr>o_id = 3, o_student_id = 7, o_item_id = 4, o_quantity = 1, o_status = ''ready'', o_created_at = 30\<rparr>,
       \<lparr>o_id = 1, o_student_id = 7, o_item_id = 1, o_quantity = 2, o_status = ''placed'', o_created_at = 10\<rparr>]"
    by (simp add: history_rows_def demo_ledger_def demo_world_def)
  have "canteen_items demo_ledger = canteen_items demo_world"
    by (simp add: demo_ledger_def)
  then show ?thesis
    using order_history_newest_first [of "\<lambda>t. ''T''" 7 demo_ledger]
    by (simp add: rows demo_world_def query_get_def)
qed

subsection \<open>Quantities below 1\<close>

text \<open>
  Claim C9. The handler does not require a requested quantity of at least 1. For an existing,
  available item with quantity at least 1, a request of quantity \<open>q \<le> 0\<close> succeeds and an
  order of quantity \<open>q\<close> is recorded; the stored quantity becomes the old one minus \<open>q\<close>.
  With \<open>q = 0\<close> the catalog is unchanged; with \<open>q < 0\<close> the stored quantity grows.
  This is for integers that SQLite stores: the item id, the caller's id, \<open>q\<close> and the new
  quantity are within its integer range, so that neither the lookup of line 210 nor the
  commit of line 219 raises.
\<close>

theorem place_order_accepts_nonpositive_quantity:
  assumes "query_get (canteen_items w) k = Some item" and "k \<noteq> 0"
    and "i_available item" and "1 \<le> i_quantity item" and "q \<le> 0"
    and "sqlite_int k" and "sqlite_int sid" and "sqlite_int q"
    and "sqlite_int (i_quantity item - q)"
  shows "\<exists>oid item' w'.
           place_order now sid \<lparr>r_item_id = Some k, r_quantity = Some q\<rparr> w
             = ((JObj [(''msg'', JStr ''order placed''), (''order_id'', JInt oid)], 201), w')
         \<and> canteen_orders w' = canteen_orders w @
              [\<lparr>o_id = oid, o_student_id = sid, o_item_id = k, o_quantity = q,
                o_status = ''placed'', o_created_at = now\<rparr>]
         \<and> query_get (canteen_items w') k = Some item'
         \<and> i_quantity item' = i_quantity item - q
         \<and> (q = 0 \<longrightarrow> canteen_items w' = canteen_items w)
         \<and> (q < 0 \<longrightarrow> i_quantity item < i_quantity item')"
proof -
  let ?data = "\<lparr>r_item_id = Some k, r_quantity = Some q\<rparr>"
  let ?oid = "next_id (map o_id (canteen_orders w))"
  define item2 where "item2 = item\<lparr>i_quantity := i_quantity item - q\<rparr>"
  have qty: "requested_quantity ?data = q"
    by (simp add: requested_quantity_def)
  have le: "requested_quantity ?data \<le> i_quantity item"
    using assms(4,5) qty by simp
  have k: "r_item_id ?data = Some k"
    by simp
  have run: "place_order now sid ?data w =
      ((JObj [(''msg'', JStr ''order placed''), (''order_id'', JInt ?oid)], 201),
       w\<lparr>canteen_items := flush_item now item item2 (canteen_items w),
         canteen_orders := canteen_orders w @
            [\<lparr>o_id = ?oid, o_student_id = sid, o_item_id = k, o_quantity = q,
              o_status = ''placed'', o_created_at = now\<rparr>],
         trace := trace w @ [DbCommit,
            SocketEmit ''canteen_update''
              [(''action'', JStr ''order''), (''item_id'', JInt k),
               (''new_quantity'', JInt (i_quantity item - q))]]\<rparr>)"
    using place_order_success [OF k assms(2) assms(1) assms(3) le, of now sid] assms(4,5) qty
    by (simp add: Let_def item2_def)
  have "i_id item2 = k"
    using query_get_id [OF assms(1)] by (simp add: item2_def)
  then obtain r where r: "query_get (flush_item now item item2 (canteen_items w)) k = Some r"
    and "i_quantity r = i_quantity item2"
    using query_get_flush_item [OF assms(1)] by blast
  then have r2: "i_quantity r = i_quantity item - q"
    by (simp add: item2_def)
  have same: "flush_item now item item2 (canteen_items w) = canteen_items w" if "q = 0"
    using that by (simp add: flush_item_def item2_def)
  show ?thesis
    using run r r2 same by auto
qed

text \<open>Orders of \<open>-4\<close> and of 0 in \<open>demo_world\<close>: the stock of 5 becomes 9, or stays.\<close>

theorem place_order_accepts_nonpositive_quantity_witness:
  "sqlite_int 1 \<and> sqlite_int 7 \<and> sqlite_int (- 4) \<and> sqlite_int (5 - (- 4))
   \<and> sqlite_int 0 \<and> sqlite_int (5 - 0)
   \<and> query_get (canteen_items demo_world) 1
     = Some \<lparr>i_id = 1, i_name = ''samosa'', i_price = 10, i_available = True,
             i_quantity = 5, i_updated_at = 0\<rparr>
   \<and> (\<exists>oid item' w'.
           place_order 100 7 \<lparr>r_item_id = Some 1, r_quantity = Some (- 4)\<rparr> demo_world
             = ((JObj [(''msg'', JStr ''order placed''), (''order_id'', JInt oid)], 201), w')
         \<and> canteen_orders w' =
              [\<lparr>o_id = oid, o_student_id = 7, o_item_id = 1, o_quantity = - 4,
                o_status = ''placed'', o_created_at = 100\<rparr>]
         \<and> query_get (canteen_items w') 1 = Some item'
         \<and> i_quantity item' = 9)
   \<and> (\<exists>oid w'.
           place_order 100 7 \<lparr>r_item_id = Some 1, r_quantity = Some 0\<rparr> demo_world
             = ((JObj [(''msg'', JStr ''order placed''), (''order_id'', JInt oid)], 201), w')
         \<and> canteen_orders w' =
              [\<lparr>o_id = oid, o_student_id = 7, o_item_id = 1, o_quantity = 0,
                o_status = ''placed'', o_created_at = 100\<rparr>]
         \<and> canteen_items w' = canteen_items demo_world)"
proof -
  have item: "query_get (canteen_items demo_world) 1
     = Some \<lparr>i_id = 1, i_name = ''samosa'', i_price = 10, i_available = True,
             i_quantity = 5, i_updated_at = 0\<rparr>"
    by (simp add: demo_world_def query_get_def)
  have range: "sqlite_int 1" "sqlite_int 7" "sqlite_int (- 4)" "sqlite_int (5 - (- 4))"
    "sqlite_int 0" "sqlite_int (5 - 0)"
    by (simp_all add: sqlite_int_def)
  have "canteen_orders demo_world = []"
    by (simp add: demo_world_def)
  then show ?thesis
    using item range
      place_order_accepts_nonpositive_quantity [OF item, of "- 4" 7 100]
      place_order_accepts_nonpositive_quantity [OF item, of 0 7 100]
    by auto
qed

subsection \<open>New menu items\<close>

text \<open>
  Claim C10. A menu item created from a request with a name and with neither a quantity nor
  an availability flag has quantity 0 and is available: right after its creation
  \<open>available = (quantity > 0)\<close> is false for it.
\<close>

theorem add_menu_item_default_breaks_invariant:
  assumes "m_name data = Some name" and "name \<noteq> []"
    and "m_quantity data = None" and "m_available data = None"
  shows "\<exists>item ident w'.
           add_menu_item now data w = ((JObj [(''msg'', JStr ''menu item added''), (''id'', JInt ident)], 201), w')
         \<and> canteen_items w' = canteen_items w @ [item]
         \<and> i_id item = ident \<and> i_name item = name
         \<and> i_quantity item = 0 \<and> i_available item
         \<and> i_available item \<noteq> (0 < i_quantity item)"
  using assms
  by (simp add: add_menu_item_def Let_def commit_def emit_def)

text \<open>Adding \<open>tea\<close> with only its name to \<open>demo_world\<close>.\<close>

theorem add_menu_item_default_breaks_invariant_witness:
  "\<exists>item ident w'.
     add_menu_item 100 \<lparr>m_name = Some ''tea'', m_price = None, m_quantity = None, m_available = None\<rparr> demo_world
       = ((JObj [(''msg'', JStr ''menu item added''), (''id'', JInt ident)], 201), w')
   \<and> canteen_items w' = canteen_items demo_world @ [item]
   \<and> i_id item = ident \<and> i_name item = ''tea''
   \<and> i_quantity item = 0 \<and> i_available item
   \<and> i_available item \<noteq> (0 < i_quantity item)"
  using add_menu_item_default_breaks_invariant
    [of "\<lparr>m_name = Some ''tea'', m_price = None, m_quantity = None, m_available = None\<rparr>" "''tea''" 100 demo_world]
  by simp

end
